theory Spec2Isabelle
  imports Main "HOL-Library.Word" "HOL-Library.Sublist" "HOL-Library.AList" "HOL-Library.Multiset"
begin

section \<open>JavaScript strings\<close>

text \<open>
  A JavaScript string is a sequence of UTF-16 code units. The regular expressions of
  \<^verbatim>\<open>install.ts\<close> carry no \<^verbatim>\<open>u\<close> flag, so they too work on code units.
\<close>

type_synonym jschar = "16 word"
type_synonym jsstring = "jschar list"

text \<open>An ASCII literal as a JavaScript string.\<close>

definition js :: "string \<Rightarrow> jsstring" where
  "js s = map (\<lambda>c. of_nat (of_char c)) s"

definition isDigit :: "jschar \<Rightarrow> bool" where
  "isDigit c = (0x30 \<le> c \<and> c \<le> 0x39)"

definition isUpper :: "jschar \<Rightarrow> bool" where
  "isUpper c = (0x41 \<le> c \<and> c \<le> 0x5A)"

definition isLower :: "jschar \<Rightarrow> bool" where
  "isLower c = (0x61 \<le> c \<and> c \<le> 0x7A)"

text \<open>The character class \<^verbatim>\<open>[A-Za-z]\<close>.\<close>

definition isLetter :: "jschar \<Rightarrow> bool" where
  "isLetter c = (isUpper c \<or> isLower c)"

text \<open>The character class \<^verbatim>\<open>[a-zA-Z0-9]\<close>; its complement is \<^verbatim>\<open>[^a-zA-Z0-9]\<close>.\<close>

definition isAlnum :: "jschar \<Rightarrow> bool" where
  "isAlnum c = (isLower c \<or> isUpper c \<or> isDigit c)"

text \<open>
  \<^verbatim>\<open>String.prototype.toUpperCase\<close>. On a string of ASCII code units it maps each
  lower-case letter to its upper-case letter and keeps every other unit. For a string
  with a unit outside ASCII the result is given by the Unicode case tables, which are
  taken as the parameter \<open>uc\<close>.
\<close>

definition asciiUpper :: "jschar \<Rightarrow> jschar" where
  "asciiUpper c = (if isLower c then c - 0x20 else c)"

definition toUpperCase :: "(jsstring \<Rightarrow> jsstring) \<Rightarrow> jsstring \<Rightarrow> jsstring" where
  "toUpperCase uc s = (if list_all (\<lambda>c. c < 0x80) s then map asciiUpper s else uc s)"

text \<open>\<^verbatim>\<open>s.charAt(0)\<close> is the first code unit as a string, the empty string if there is none;
  \<^verbatim>\<open>s.slice(1)\<close> is the rest.\<close>

definition charAt0 :: "jsstring \<Rightarrow> jsstring" where
  "charAt0 s = take 1 s"

definition slice1 :: "jsstring \<Rightarrow> jsstring" where
  "slice1 s = drop 1 s"

text \<open>
  \<^verbatim>\<open>s.endsWith(t)\<close>: the last \<open>length t\<close> code units of \<open>s\<close> are \<open>t\<close>; false when \<open>s\<close>
  is shorter than \<open>t\<close>. The comparison is by code unit, so it is case-sensitive.
\<close>

definition endsWith :: "jsstring \<Rightarrow> jsstring \<Rightarrow> bool" where
  "endsWith s t = (length t \<le> length s \<and> drop (length s - length t) s = t)"

section \<open>The name deriver\<close>

text \<open>
  \<^verbatim>\<open>/\.svg$/i\<close> matches the last four code units of a string when they are a dot and
  the letters s, v, g in either case. Without the \<^verbatim>\<open>u\<close> flag the \<^verbatim>\<open>i\<close> flag never
  relates a unit outside ASCII to an ASCII letter.
\<close>

definition matchesSvgExt :: "jsstring \<Rightarrow> bool" where
  "matchesSvgExt t = (case t of
      [d, s, v, g] \<Rightarrow> d = 0x2E \<and> (s = 0x73 \<or> s = 0x53) \<and> (v = 0x76 \<or> v = 0x56)
                        \<and> (g = 0x67 \<or> g = 0x47)
    | _ \<Rightarrow> False)"

text \<open>\<^verbatim>\<open>fileName.replace(/\.svg$/i, '')\<close>\<close>

definition stripSvgExt :: "jsstring \<Rightarrow> jsstring" where
  "stripSvgExt fileName =
     (if 4 \<le> length fileName \<and> matchesSvgExt (drop (length fileName - 4) fileName)
      then take (length fileName - 4) fileName else fileName)"

text \<open>
  \<^verbatim>\<open>base.split(/[^a-zA-Z0-9]+/)\<close>. The pattern is greedy, so every match is a maximal run
  of units outside the class. The pieces between the matches are returned, the empty
  piece before a leading match and after a trailing match included; the empty string
  gives the one empty piece. \<open>acc\<close> holds the piece being read, reversed.
\<close>

function splitNonAlnum :: "jsstring \<Rightarrow> jsstring \<Rightarrow> jsstring list" where
  "splitNonAlnum acc [] = [rev acc]"
| "splitNonAlnum acc (c # cs) =
     (if isAlnum c then splitNonAlnum (c # acc) cs
      else rev acc # splitNonAlnum [] (dropWhile (\<lambda>x. \<not> isAlnum x) cs))"
  by pat_completeness auto
termination
  by (relation "measure (\<lambda>(acc, s). length s)")
     (auto simp: le_imp_less_Suc length_dropWhile_le)

text \<open>\<^verbatim>\<open>.filter(Boolean)\<close> on strings keeps the non-empty ones.\<close>

definition parts :: "jsstring \<Rightarrow> jsstring list" where
  "parts base = filter (\<lambda>p. p \<noteq> []) (splitNonAlnum [] base)"

text \<open>\<^verbatim>\<open>part.charAt(0).toUpperCase() + part.slice(1)\<close>\<close>

definition capitalize :: "(jsstring \<Rightarrow> jsstring) \<Rightarrow> jsstring \<Rightarrow> jsstring" where
  "capitalize uc part = toUpperCase uc (charAt0 part) @ slice1 part"

text \<open>The local \<^verbatim>\<open>name\<close>: the capitalized parts joined with the empty separator.\<close>

definition rawName :: "(jsstring \<Rightarrow> jsstring) \<Rightarrow> jsstring \<Rightarrow> jsstring" where
  "rawName uc fileName = concat (map (capitalize uc) (parts (stripSvgExt fileName)))"

definition Icon :: jsstring where
  "Icon = js ''Icon''"

text \<open>The local \<^verbatim>\<open>safeName = name || 'Icon'\<close>: the empty string is the only falsy string.\<close>

definition safeName :: "(jsstring \<Rightarrow> jsstring) \<Rightarrow> jsstring \<Rightarrow> jsstring" where
  "safeName uc fileName = (let name = rawName uc fileName in if name = [] then Icon else name)"

text \<open>\<^verbatim>\<open>/^[A-Za-z]/.test(s)\<close>\<close>

definition startsWithLetter :: "jsstring \<Rightarrow> bool" where
  "startsWithLetter s = (case s of [] \<Rightarrow> False | c # _ \<Rightarrow> isLetter c)"

definition toComponentName :: "(jsstring \<Rightarrow> jsstring) \<Rightarrow> jsstring \<Rightarrow> jsstring" where
  "toComponentName uc fileName =
     (let s = safeName uc fileName in if startsWithLetter s then s @ Icon else Icon @ s)"

section \<open>Files, errors and the world of the install script\<close>

text \<open>
  The file types that \<^verbatim>\<open>fs.Stats\<close> and \<^verbatim>\<open>fs.Dirent\<close> tell apart, named as the mode bits
  they are read from. \<^verbatim>\<open>isFile()\<close> holds of a regular file only, \<^verbatim>\<open>isDirectory()\<close> of a
  directory only.
\<close>

datatype ftype = S_IFREG | S_IFDIR | S_IFLNK | S_IFIFO | S_IFSOCK | S_IFCHR | S_IFBLK

definition isFile :: "ftype \<Rightarrow> bool" where
  "isFile t = (t = S_IFREG)"

definition isDirectory :: "ftype \<Rightarrow> bool" where
  "isDirectory t = (t = S_IFDIR)"

text \<open>An entry of \<^verbatim>\<open>fs.readdir(dir, { withFileTypes: true })\<close>.\<close>

record dirent =
  name :: jsstring
  ftype :: ftype

text \<open>
  A rejected promise carries an error: a system error with its \<^verbatim>\<open>code\<close>, or a plain
  \<^verbatim>\<open>Error\<close> with its message, whose \<^verbatim>\<open>code\<close> is undefined.
\<close>

datatype error = ErrnoException jsstring | Error jsstring

fun code :: "error \<Rightarrow> jsstring option" where
  "code (ErrnoException c) = Some c"
| "code (Error m) = None"

text \<open>What lies at \<^verbatim>\<open>componentsDir\<close>: a file with its text, or a directory with its entries.\<close>

datatype node = FileNode jsstring | DirNode "(jsstring \<times> node) list"

text \<open>The calls that change the file system or start a process, as the trace records them.\<close>

datatype event =
    Rm
  | Mkdir
  | WriteFile jsstring jsstring
  | Execa jsstring "jsstring list"

text \<open>
  The source directory is only read by the script, so it is given by what the calls on it
  answer: \<^verbatim>\<open>fs.stat(svgDir)\<close>, \<^verbatim>\<open>fs.readdir(svgDir)\<close> and \<^verbatim>\<open>fs.readFile\<close> of an entry by
  name. The destination is owned by the script and is a tree, absent when \<open>None\<close>.
  \<open>fault\<close> says which changing call is refused by the system (permissions, full disk)
  and with which error; a refused call leaves the tree as it was.
\<close>

record filesys =
  svgDir_stat :: "error + ftype"
  svgDir_readdir :: "error + dirent list"
  svgDir_readFile :: "jsstring \<Rightarrow> error + jsstring"
  componentsDir :: "node option"
  fault :: "event \<Rightarrow> error option"

record world =
  fs :: filesys
  trace :: "event list"

text \<open>A subprocess: it may change the file system, and fails on a non-zero exit.\<close>

type_synonym process = "filesys \<Rightarrow> error option \<times> filesys"

text \<open>
  \<^verbatim>\<open>relative(svgDir)\<close> and \<^verbatim>\<open>relative(componentsDir)\<close>: the paths below \<^verbatim>\<open>appRoot\<close>, with
  the POSIX separator.
\<close>

definition relative_svgDir :: jsstring where
  "relative_svgDir = js ''src/sf-symbols''"

definition relative_componentsDir :: jsstring where
  "relative_componentsDir = js ''dist/components''"

section \<open>The directory state guard\<close>

datatype pathState = Missing | Directory | File

definition ENOENT :: jsstring where
  "ENOENT = js ''ENOENT''"

definition detectSvgDir :: "filesys \<Rightarrow> error + pathState" where
  "detectSvgDir f =
     (case svgDir_stat f of
        Inr stats \<Rightarrow>
          if isDirectory stats then Inr Directory
          else if isFile stats then Inr File
          else Inr Missing
      | Inl e \<Rightarrow> if code e = Some ENOENT then Inr Missing else Inl e)"

section \<open>Generating the icons\<close>

text \<open>\<^verbatim>\<open>await execa(cmd, args, ...)\<close>: the call is recorded and the process runs.\<close>

definition execa :: "process \<Rightarrow> jsstring \<Rightarrow> jsstring list \<Rightarrow> world \<Rightarrow> error option \<times> world" where
  "execa run cmd args w =
     (case run (fs w) of (r, f') \<Rightarrow> (r, \<lparr>fs = f', trace = trace w @ [Execa cmd args]\<rparr>))"

definition generatorArgs :: "jsstring list" where
  "generatorArgs = [js ''sf-symbols-svg'', js ''-o'', relative_svgDir]"

definition notADirectory :: error where
  "notADirectory = Error (relative_svgDir
     @ js '' exists but is not a directory. Remove it so icons can be generated.'')"

definition ensureSvgIcons :: "process \<Rightarrow> world \<Rightarrow> error option \<times> world" where
  "ensureSvgIcons generator w =
     (case detectSvgDir (fs w) of
        Inl e \<Rightarrow> (Some e, w)
      | Inr Directory \<Rightarrow> (None, w)
      | Inr File \<Rightarrow> (Some notADirectory, w)
      | Inr Missing \<Rightarrow> execa generator (js ''yarn'') generatorArgs w)"

section \<open>The input enumerator\<close>

text \<open>The filter of \<^verbatim>\<open>buildReactComponents\<close> and of \<^verbatim>\<open>loadIconNames\<close>.\<close>

definition svgFiles :: "dirent list \<Rightarrow> dirent list" where
  "svgFiles entries =
     filter (\<lambda>entry. isFile (ftype entry) \<and> endsWith (name entry) (js ''.svg'')) entries"

text \<open>
  \<^verbatim>\<open>names.sort((a, b) => a.localeCompare(b))\<close>. The comparison depends on the locale and is
  the parameter \<open>localeCompare\<close>. The sort is stable; for a comparison that is not a
  consistent order the language leaves the order open, and the result is still a
  rearrangement of the input.
\<close>

fun insertBy :: "('a \<Rightarrow> 'a \<Rightarrow> int) \<Rightarrow> 'a \<Rightarrow> 'a list \<Rightarrow> 'a list" where
  "insertBy cmp x [] = [x]"
| "insertBy cmp x (y # ys) = (if cmp x y > 0 then y # insertBy cmp x ys else x # y # ys)"

definition sortBy :: "('a \<Rightarrow> 'a \<Rightarrow> int) \<Rightarrow> 'a list \<Rightarrow> 'a list" where
  "sortBy cmp xs = foldr (insertBy cmp) xs []"

definition loadIconNames :: "(jsstring \<Rightarrow> jsstring \<Rightarrow> int) \<Rightarrow> filesys \<Rightarrow> error + jsstring list" where
  "loadIconNames localeCompare f =
     (case svgDir_readdir f of
        Inl e \<Rightarrow> Inl e
      | Inr entries \<Rightarrow> Inr (sortBy localeCompare (map name (svgFiles entries))))"

text \<open>
  The enumerator as the specification words it: the extension is matched in any
  capitalization.
\<close>

definition spec_svgFiles :: "dirent list \<Rightarrow> dirent list" where
  "spec_svgFiles entries =
     filter (\<lambda>entry. isFile (ftype entry) \<and> 4 \<le> length (name entry)
        \<and> matchesSvgExt (drop (length (name entry) - 4) (name entry))) entries"

section \<open>The transform pipeline\<close>

text \<open>\<^verbatim>\<open>fs.rm(componentsDir, { recursive: true, force: true })\<close>: whatever is there is
  removed, and nothing there is no error.\<close>

definition rm :: "world \<Rightarrow> error option \<times> world" where
  "rm w =
     (let w' = w\<lparr>trace := trace w @ [Rm]\<rparr> in
      case fault (fs w) Rm of
        Some e \<Rightarrow> (Some e, w')
      | None \<Rightarrow> (None, w'\<lparr>fs := (fs w)\<lparr>componentsDir := None\<rparr>\<rparr>))"

text \<open>\<^verbatim>\<open>fs.mkdir(componentsDir, { recursive: true })\<close>: an existing directory is kept and
  is no error; a file in its place is one.\<close>

definition mkdir :: "world \<Rightarrow> error option \<times> world" where
  "mkdir w =
     (let w' = w\<lparr>trace := trace w @ [Mkdir]\<rparr> in
      case fault (fs w) Mkdir of
        Some e \<Rightarrow> (Some e, w')
      | None \<Rightarrow>
          (case componentsDir (fs w) of
             None \<Rightarrow> (None, w'\<lparr>fs := (fs w)\<lparr>componentsDir := Some (DirNode [])\<rparr>\<rparr>)
           | Some (DirNode es) \<Rightarrow> (None, w')
           | Some (FileNode t) \<Rightarrow> (Some (ErrnoException (js ''EEXIST'')), w')))"

text \<open>\<^verbatim>\<open>fs.writeFile(path.join(componentsDir, fileName), data, 'utf8')\<close>: the file is
  created, or replaced when a file of that name is there.\<close>

definition writeFile :: "jsstring \<Rightarrow> jsstring \<Rightarrow> world \<Rightarrow> error option \<times> world" where
  "writeFile fileName data w =
     (let w' = w\<lparr>trace := trace w @ [WriteFile fileName data]\<rparr> in
      case fault (fs w) (WriteFile fileName data) of
        Some e \<Rightarrow> (Some e, w')
      | None \<Rightarrow>
          (case componentsDir (fs w) of
             None \<Rightarrow> (Some (ErrnoException ENOENT), w')
           | Some (FileNode t) \<Rightarrow> (Some (ErrnoException (js ''ENOTDIR'')), w')
           | Some (DirNode es) \<Rightarrow>
               (case map_of es fileName of
                  Some (DirNode sub) \<Rightarrow> (Some (ErrnoException (js ''EISDIR'')), w')
                | _ \<Rightarrow> (None, w'\<lparr>fs := (fs w)\<lparr>componentsDir :=
                      Some (DirNode (AList.update fileName (FileNode data) es))\<rparr>\<rparr>))))"

text \<open>
  The content transformer takes the text of the icon and the component name (its options
  are fixed) and gives the source of the component, or fails.
\<close>

type_synonym transformer = "jsstring \<Rightarrow> jsstring \<Rightarrow> error + jsstring"

text \<open>The loop \<^verbatim>\<open>for (const svg of svgFiles)\<close>; the first failure ends the run.\<close>

fun transformAll ::
  "transformer \<Rightarrow> (jsstring \<Rightarrow> jsstring) \<Rightarrow> dirent list \<Rightarrow> world \<Rightarrow> error option \<times> world" where
  "transformAll transform uc [] w = (None, w)"
| "transformAll transform uc (svg # rest) w =
     (case svgDir_readFile (fs w) (name svg) of
        Inl e \<Rightarrow> (Some e, w)
      | Inr svgContent \<Rightarrow>
          (let componentName = toComponentName uc (name svg) in
           case transform svgContent componentName of
             Inl e \<Rightarrow> (Some e, w)
           | Inr componentSource \<Rightarrow>
               (case writeFile (componentName @ js ''.tsx'') componentSource w of
                  (Some e, w') \<Rightarrow> (Some e, w')
                | (None, w') \<Rightarrow> transformAll transform uc rest w')))"

definition directoryNotFound :: error where
  "directoryNotFound = Error (js ''SVG icon directory not found at '' @ relative_svgDir
     @ js ''. Generation may have failed.'')"

definition buildReactComponents ::
  "transformer \<Rightarrow> (jsstring \<Rightarrow> jsstring) \<Rightarrow> world \<Rightarrow> error option \<times> world" where
  "buildReactComponents transform uc w =
     (case detectSvgDir (fs w) of
        Inl e \<Rightarrow> (Some e, w)
      | Inr Missing \<Rightarrow> (Some directoryNotFound, w)
      | Inr File \<Rightarrow> (Some directoryNotFound, w)
      | Inr Directory \<Rightarrow>
          (case svgDir_readdir (fs w) of
             Inl e \<Rightarrow> (Some e, w)
           | Inr entries \<Rightarrow>
               if length (svgFiles entries) = 0 then (None, w)
               else
                 (case rm w of
                    (Some e, w1) \<Rightarrow> (Some e, w1)
                  | (None, w1) \<Rightarrow>
                      (case mkdir w1 of
                         (Some e, w2) \<Rightarrow> (Some e, w2)
                       | (None, w2) \<Rightarrow> transformAll transform uc (svgFiles entries) w2))))"

section \<open>Formatting and the whole run\<close>

text \<open>
  \<^verbatim>\<open>fs.stat(componentsDir)\<close> is answered by the tree: not found when nothing is there.
  The formatter runs only on a directory; every other case is a skip.
\<close>

definition formatComponents :: "process \<Rightarrow> world \<Rightarrow> error option \<times> world" where
  "formatComponents prettier w =
     (case componentsDir (fs w) of
        None \<Rightarrow> (None, w)
      | Some (FileNode t) \<Rightarrow> (None, w)
      | Some (DirNode es) \<Rightarrow>
          execa prettier (js ''yarn'') [js ''prettier'', js ''--write'', relative_componentsDir] w)"

text \<open>\<^verbatim>\<open>main\<close>: the three steps in order; a failure of one ends the run with that error.\<close>

definition main ::
  "process \<Rightarrow> transformer \<Rightarrow> (jsstring \<Rightarrow> jsstring) \<Rightarrow> process \<Rightarrow> world \<Rightarrow> error option \<times> world" where
  "main generator transform uc prettier w =
     (case ensureSvgIcons generator w of
        (Some e, w1) \<Rightarrow> (Some e, w1)
      | (None, w1) \<Rightarrow>
          (case buildReactComponents transform uc w1 of
             (Some e, w2) \<Rightarrow> (Some e, w2)
           | (None, w2) \<Rightarrow> formatComponents prettier w2))"

section \<open>The data of the browsing page\<close>

text \<open>
  \<^verbatim>\<open>JSON.stringify\<close> of an array of strings. A string is quoted: the quote, the backslash
  and the control characters below U+0020 are escaped, a surrogate code unit that is not
  part of a pair is written as a \<^verbatim>\<open>\u\<close> escape, and every other code unit is kept.
\<close>

definition isLeadSurrogate :: "jschar \<Rightarrow> bool" where
  "isLeadSurrogate c = (0xD800 \<le> c \<and> c \<le> 0xDBFF)"

definition isTrailSurrogate :: "jschar \<Rightarrow> bool" where
  "isTrailSurrogate c = (0xDC00 \<le> c \<and> c \<le> 0xDFFF)"

definition hexDigit :: "jschar \<Rightarrow> jschar" where
  "hexDigit d = (if d < 10 then 0x30 + d else 0x61 + (d - 10))"

definition unicodeEscape :: "jschar \<Rightarrow> jsstring" where
  "unicodeEscape c =
     [0x5C, 0x75, hexDigit (drop_bit 12 c), hexDigit (take_bit 4 (drop_bit 8 c)),
      hexDigit (take_bit 4 (drop_bit 4 c)), hexDigit (take_bit 4 c)]"

definition quoteUnit :: "jschar \<Rightarrow> jsstring" where
  "quoteUnit c =
     (if c = 0x08 then [0x5C, 0x62]
      else if c = 0x09 then [0x5C, 0x74]
      else if c = 0x0A then [0x5C, 0x6E]
      else if c = 0x0C then [0x5C, 0x66]
      else if c = 0x0D then [0x5C, 0x72]
      else if c = 0x22 then [0x5C, 0x22]
      else if c = 0x5C then [0x5C, 0x5C]
      else if c < 0x20 \<or> isLeadSurrogate c \<or> isTrailSurrogate c then unicodeEscape c
      else [c])"

fun quoteUnits :: "jsstring \<Rightarrow> jsstring" where
  "quoteUnits [] = []"
| "quoteUnits [c] = quoteUnit c"
| "quoteUnits (c # d # cs) =
     (if isLeadSurrogate c \<and> isTrailSurrogate d then c # d # quoteUnits cs
      else quoteUnit c @ quoteUnits (d # cs))"

definition quoteJSONString :: "jsstring \<Rightarrow> jsstring" where
  "quoteJSONString s = 0x22 # quoteUnits s @ [0x22]"

fun join :: "jsstring \<Rightarrow> jsstring list \<Rightarrow> jsstring" where
  "join sep [] = []"
| "join sep [x] = x"
| "join sep (x # y # ys) = x @ sep @ join sep (y # ys)"

definition JSON_stringify :: "jsstring list \<Rightarrow> jsstring" where
  "JSON_stringify xs = js ''['' @ join (js '','') (map quoteJSONString xs) @ js '']''"

text \<open>\<^verbatim>\<open>s.replace(/</g, '\\u003c')\<close>: every \<^verbatim>\<open><\<close> becomes the six units of the
  escape.\<close>

definition u003c :: jsstring where
  "u003c = [0x5C, 0x75, 0x30, 0x30, 0x33, 0x63]"

definition replaceLt :: "jsstring \<Rightarrow> jsstring" where
  "replaceLt s = concat (map (\<lambda>c. if c = 0x3C then u003c else [c]) s)"

text \<open>The local \<^verbatim>\<open>safeJson\<close> of \<^verbatim>\<open>renderHtml\<close>, which the page holds as
  \<^verbatim>\<open>const ICONS = ${safeJson};\<close> inside its script block.\<close>

definition safeJson :: "jsstring list \<Rightarrow> jsstring" where
  "safeJson iconNames = replaceLt (JSON_stringify iconNames)"

section \<open>Example worlds\<close>

text \<open>
  A file system without faults whose files each hold their own name as text, and a
  transformer that wraps the text it is given.
\<close>

definition exampleFs :: "error + ftype \<Rightarrow> dirent list \<Rightarrow> node option \<Rightarrow> filesys" where
  "exampleFs st entries dest =
     \<lparr>svgDir_stat = st, svgDir_readdir = Inr entries, svgDir_readFile = Inr,
      componentsDir = dest, fault = (\<lambda>ev. None)\<rparr>"

definition exampleTransform :: transformer where
  "exampleTransform svgContent componentName = Inr (componentName @ js '':'' @ svgContent)"


text \<open>The directory of the enumeration example: two icons that differ in the
  capitalization of the extension, a text file and a subdirectory named like an icon.\<close>

definition exampleDir :: "dirent list" where
  "exampleDir =
     [\<lparr>name = js ''icon.svg'', ftype = S_IFREG\<rparr>, \<lparr>name = js ''icon.SVG'', ftype = S_IFREG\<rparr>,
      \<lparr>name = js ''readme.txt'', ftype = S_IFREG\<rparr>, \<lparr>name = js ''icon.svg'', ftype = S_IFDIR\<rparr>]"

text \<open>A destination that holds a file of an earlier run, and two icons to transform.\<close>

definition staleDir :: node where
  "staleDir = DirNode [(js ''Stale.tsx'', FileNode (js ''old''))]"

definition exampleWorld :: "dirent list \<Rightarrow> world" where
  "exampleWorld entries = \<lparr>fs = exampleFs (Inr S_IFDIR) entries (Some staleDir), trace = []\<rparr>"

definition exampleIcons :: "dirent list" where
  "exampleIcons = [\<lparr>name = js ''arrow-up.svg'', ftype = S_IFREG\<rparr>,
                   \<lparr>name = js ''2-circles.svg'', ftype = S_IFREG\<rparr>]"

section \<open>Notions for stating the properties\<close>

text \<open>
  The file that one pass of the loop writes for a source entry: its name and content, when
  the entry can be read and the transformer succeeds.
\<close>

definition component ::
  "transformer \<Rightarrow> (jsstring \<Rightarrow> jsstring) \<Rightarrow> filesys \<Rightarrow> dirent \<Rightarrow> (jsstring \<times> node) option" where
  "component transform uc f svg =
     (case svgDir_readFile f (name svg) of
        Inl e \<Rightarrow> None
      | Inr svgContent \<Rightarrow>
          (case transform svgContent (toComponentName uc (name svg)) of
             Inl e \<Rightarrow> None
           | Inr componentSource \<Rightarrow>
               Some (toComponentName uc (name svg) @ js ''.tsx'', FileNode componentSource)))"

text \<open>The events that write a file.\<close>

definition isWrite :: "event \<Rightarrow> bool" where
  "isWrite ev = (case ev of WriteFile n d \<Rightarrow> True | _ \<Rightarrow> False)"

section \<open>Properties of the name deriver\<close>

lemma isLower_upper: "isLower c \<Longrightarrow> isUpper (c - 0x20)"
  unfolding isLower_def isUpper_def by unat_arith

lemma isAlnum_ascii: "isAlnum c \<Longrightarrow> c < 0x80"
  unfolding isAlnum_def isLower_def isUpper_def isDigit_def by unat_arith

lemma isAlnum_asciiUpper: "isAlnum c \<Longrightarrow> isAlnum (asciiUpper c)"
  by (auto simp: asciiUpper_def isAlnum_def dest: isLower_upper)

lemma isLetter_asciiUpper: "isLetter c \<Longrightarrow> isLetter (asciiUpper c)"
  by (auto simp: asciiUpper_def isLetter_def dest: isLower_upper)

lemma isLetter_isAlnum: "isLetter c \<Longrightarrow> isAlnum c"
  by (auto simp: isLetter_def isAlnum_def)

lemma asciiUpper_not_letter: "\<not> isLetter c \<Longrightarrow> asciiUpper c = c"
  by (simp add: asciiUpper_def isLetter_def)

lemma capitalize_Cons: "isAlnum c \<Longrightarrow> capitalize uc (c # cs) = asciiUpper c # cs"
  by (simp add: capitalize_def charAt0_def slice1_def toUpperCase_def isAlnum_ascii)

lemma splitNonAlnum_alnum:
  "list_all isAlnum acc \<Longrightarrow> list_all (list_all isAlnum) (splitNonAlnum acc s)"
proof (induction acc s rule: splitNonAlnum.induct)
  case (1 acc)
  then show ?case by simp
next
  case (2 acc c cs)
  show ?case
  proof (cases "isAlnum c")
    case True
    with 2(3) have "list_all isAlnum (c # acc)" by simp
    with 2(1) True show ?thesis by simp
  next
    case False
    with 2(2) have "list_all (list_all isAlnum) (splitNonAlnum [] (dropWhile (\<lambda>x. \<not> isAlnum x) cs))"
      by simp
    with 2(3) False show ?thesis by simp
  qed
qed

lemma parts_alnum: "p \<in> set (parts base) \<Longrightarrow> p \<noteq> [] \<and> list_all isAlnum p"
  using splitNonAlnum_alnum [of "[]" base] by (auto simp: parts_def list_all_iff)

lemma capitalize_alnum:
  "p \<noteq> [] \<Longrightarrow> list_all isAlnum p \<Longrightarrow> capitalize uc p \<noteq> [] \<and> list_all isAlnum (capitalize uc p)"
  by (cases p) (simp_all add: capitalize_Cons isAlnum_asciiUpper)

lemma rawName_alnum: "list_all isAlnum (rawName uc fileName)"
  unfolding rawName_def using parts_alnum capitalize_alnum
  by (fastforce simp: list_all_iff)

lemma Icon_alnum: "list_all isAlnum Icon" and Icon_letter: "startsWithLetter Icon"
  and Icon_eq: "Icon = [0x49, 0x63, 0x6F, 0x6E]"
  by (simp_all add: Icon_def js_def isAlnum_def isLower_def isUpper_def isDigit_def
        startsWithLetter_def isLetter_def)

lemma Icon_nonempty: "Icon \<noteq> []"
  by (simp add: Icon_eq)

lemma safeName_alnum: "safeName uc fileName \<noteq> [] \<and> list_all isAlnum (safeName uc fileName)"
  using rawName_alnum [of uc fileName]
  by (simp add: safeName_def Let_def Icon_alnum Icon_nonempty)

lemma startsWithLetter_append: "startsWithLetter s \<Longrightarrow> startsWithLetter (s @ t)"
  by (cases s) (simp_all add: startsWithLetter_def)

text \<open>
  Claim C2. For every file name the name deriver gives a non-empty string that starts with
  an ASCII letter and whose other code units are ASCII letters or digits. The function
  has no failing branch and is a function of its argument, whatever the Unicode case
  tables \<open>uc\<close> are.
\<close>

theorem toComponentName_total:
  "toComponentName uc fileName \<noteq> []
   \<and> startsWithLetter (toComponentName uc fileName)
   \<and> list_all isAlnum (tl (toComponentName uc fileName))"
proof -
  let ?s = "safeName uc fileName"
  have s: "?s \<noteq> []" "list_all isAlnum ?s" using safeName_alnum by auto
  show ?thesis
  proof (cases "startsWithLetter ?s")
    case True
    then have r: "toComponentName uc fileName = ?s @ Icon"
      by (simp add: toComponentName_def Let_def)
    from s Icon_alnum have "list_all isAlnum (tl (?s @ Icon))"
      by (cases ?s) simp_all
    with True s r show ?thesis by (simp add: startsWithLetter_append)
  next
    case False
    then have r: "toComponentName uc fileName = Icon @ ?s"
      by (simp add: toComponentName_def Let_def)
    have "list_all isAlnum (tl (Icon @ ?s))"
      using s Icon_alnum by (simp add: Icon_eq)
    with r Icon_nonempty startsWithLetter_append [OF Icon_letter, of ?s] show ?thesis by simp
  qed
qed

text \<open>The name of \<^verbatim>\<open>arrow-up.svg\<close>, as an instance of C2.\<close>

theorem toComponentName_total_witness:
  "toComponentName (\<lambda>s. s) (js ''arrow-up.svg'') = js ''ArrowUpIcon''
   \<and> startsWithLetter (js ''ArrowUpIcon'')
   \<and> list_all isAlnum (tl (js ''ArrowUpIcon''))"
proof -
  have "toComponentName (\<lambda>s. s) (js ''arrow-up.svg'') = js ''ArrowUpIcon''"
    by (simp add: toComponentName_def safeName_def rawName_def parts_def stripSvgExt_def
        matchesSvgExt_def js_def isAlnum_def isLower_def isUpper_def isDigit_def capitalize_def
        charAt0_def slice1_def toUpperCase_def asciiUpper_def Icon_def startsWithLetter_def
        isLetter_def)
  with toComponentName_total [of "\<lambda>s. s" "js ''arrow-up.svg''"] show ?thesis by simp
qed

lemma dropWhile_seps: "\<forall>c\<in>set s. \<not> isAlnum c \<Longrightarrow> dropWhile (\<lambda>x. \<not> isAlnum x) s = []"
  by simp

lemma splitNonAlnum_seps:
  "filter (\<lambda>p. p \<noteq> []) (splitNonAlnum [] s) = []" if "\<forall>c\<in>set s. \<not> isAlnum c"
proof (cases s)
  case Nil
  then show ?thesis by simp
next
  case (Cons c cs)
  with that show ?thesis by (simp add: dropWhile_seps)
qed

lemma parts_dropWhile:
  "filter (\<lambda>p. p \<noteq> []) (splitNonAlnum [] (dropWhile (\<lambda>x. \<not> isAlnum x) ys))
   = filter (\<lambda>p. p \<noteq> []) (splitNonAlnum [] ys)"
  by (cases ys) simp_all

lemma split_append_sep:
  assumes "s \<noteq> []" "\<forall>c\<in>set s. \<not> isAlnum c"
  shows "filter (\<lambda>p. p \<noteq> []) (splitNonAlnum acc (xs @ s @ ys))
       = filter (\<lambda>p. p \<noteq> []) (splitNonAlnum acc xs) @ filter (\<lambda>p. p \<noteq> []) (splitNonAlnum [] ys)"
proof (induction acc xs rule: splitNonAlnum.induct)
  case (1 acc)
  from assms obtain c cs where s: "s = c # cs" by (cases s) auto
  with assms have "dropWhile (\<lambda>x. \<not> isAlnum x) (cs @ ys) = dropWhile (\<lambda>x. \<not> isAlnum x) ys"
    by (simp add: dropWhile_append2)
  with s assms show ?case by (simp add: parts_dropWhile)
next
  case (2 acc c cs)
  show ?case
  proof (cases "isAlnum c")
    case True
    with 2 show ?thesis by simp
  next
    case False
    show ?thesis
    proof (cases "\<forall>x\<in>set cs. \<not> isAlnum x")
      case True
      with assms have "dropWhile (\<lambda>x. \<not> isAlnum x) (cs @ s @ ys) = dropWhile (\<lambda>x. \<not> isAlnum x) ys"
        using dropWhile_append2 [of "cs @ s" "\<lambda>x. \<not> isAlnum x" ys] by auto
      then show ?thesis using False True
        by (simp add: parts_dropWhile dropWhile_seps)
    next
      case nt: False
      then have "dropWhile (\<lambda>x. \<not> isAlnum x) (cs @ s @ ys) = dropWhile (\<lambda>x. \<not> isAlnum x) cs @ s @ ys"
        by (auto simp: dropWhile_append1)
      with 2(2) False show ?thesis by simp
    qed
  qed
qed

lemma parts_append_sep:
  "s \<noteq> [] \<Longrightarrow> \<forall>c\<in>set s. \<not> isAlnum c \<Longrightarrow> parts (xs @ s @ ys) = parts xs @ parts ys"
  by (simp add: parts_def split_append_sep)

lemma matchesSvgExt_length: "matchesSvgExt ext \<Longrightarrow> length ext = 4"
  by (simp add: matchesSvgExt_def split: list.splits)

lemma stripSvgExt_append:
  "matchesSvgExt ext \<Longrightarrow> stripSvgExt (base @ ext) = base"
  by (frule matchesSvgExt_length) (simp add: stripSvgExt_def)

text \<open>
  Claim C3. When the file name without its extension holds no ASCII letter or digit, the
  joined name is empty, the fallback \<^verbatim>\<open>Icon\<close> takes its place and the token is added to
  it: the result is \<^verbatim>\<open>IconIcon\<close> in every such case.
\<close>

theorem toComponentName_fallback:
  assumes "\<forall>c\<in>set (stripSvgExt fileName). \<not> isAlnum c"
  shows "toComponentName uc fileName = js ''IconIcon''"
proof -
  from assms have "parts (stripSvgExt fileName) = []"
    by (simp add: parts_def splitNonAlnum_seps)
  then have "safeName uc fileName = Icon"
    by (simp add: safeName_def rawName_def)
  then show ?thesis
    by (simp add: toComponentName_def Icon_letter) (simp add: Icon_def js_def)
qed

text \<open>The file names \<^verbatim>\<open>___.svg\<close> and \<^verbatim>\<open>.svg\<close>, as instances of C3.\<close>

theorem toComponentName_fallback_witness:
  "stripSvgExt (js ''___.svg'') = js ''___''
   \<and> toComponentName (\<lambda>s. s) (js ''___.svg'') = js ''IconIcon''
   \<and> stripSvgExt (js ''.svg'') = []
   \<and> toComponentName (\<lambda>s. s) (js ''.svg'') = js ''IconIcon''"
proof -
  have s1: "stripSvgExt (js ''___.svg'') = js ''___''" and s2: "stripSvgExt (js ''.svg'') = []"
    by (simp_all add: stripSvgExt_def matchesSvgExt_def js_def)
  have h1: "\<forall>c\<in>set (stripSvgExt (js ''___.svg'')). \<not> isAlnum c"
    unfolding s1 by (simp add: js_def isAlnum_def isLower_def isUpper_def isDigit_def)
  have h2: "\<forall>c\<in>set (stripSvgExt (js ''.svg'')). \<not> isAlnum c"
    unfolding s2 by simp
  show ?thesis
    using s1 s2 toComponentName_fallback [OF h1] toComponentName_fallback [OF h2] by simp
qed

text \<open>
  Claim C4. The token is appended when the name that step 5 works on (the joined name, or
  the fallback in its place) starts with an ASCII letter, and is put in front otherwise,
  and the result then starts with a letter. That name is the joined name whenever the
  joined name is not empty. \<^verbatim>\<open>circle.svg\<close> gives the joined name \<^verbatim>\<open>Circle\<close> followed by the
  token, \<^verbatim>\<open>1-circle.svg\<close> gives the token followed by the joined name \<^verbatim>\<open>1Circle\<close>.
\<close>

theorem toComponentName_affix:
  "(startsWithLetter (safeName uc fileName)
      \<longrightarrow> toComponentName uc fileName = safeName uc fileName @ Icon)
   \<and> (\<not> startsWithLetter (safeName uc fileName)
      \<longrightarrow> toComponentName uc fileName = Icon @ safeName uc fileName
          \<and> startsWithLetter (toComponentName uc fileName))
   \<and> (rawName uc fileName \<noteq> [] \<longrightarrow> safeName uc fileName = rawName uc fileName)
   \<and> rawName uc (js ''circle.svg'') = js ''Circle''
   \<and> toComponentName uc (js ''circle.svg'') = js ''Circle'' @ Icon
   \<and> rawName uc (js ''1-circle.svg'') = js ''1Circle''
   \<and> toComponentName uc (js ''1-circle.svg'') = Icon @ js ''1Circle''"
proof -
  have a: "startsWithLetter (Icon @ s)" for s
    using startsWithLetter_append [OF Icon_letter] .
  have b: "rawName uc (js ''circle.svg'') = js ''Circle''"
    by (simp add: rawName_def parts_def stripSvgExt_def matchesSvgExt_def js_def isAlnum_def
        isLower_def isUpper_def isDigit_def capitalize_def charAt0_def slice1_def
        toUpperCase_def asciiUpper_def)
  have c: "rawName uc (js ''1-circle.svg'') = js ''1Circle''"
    by (simp add: rawName_def parts_def stripSvgExt_def matchesSvgExt_def js_def isAlnum_def
        isLower_def isUpper_def isDigit_def capitalize_def charAt0_def slice1_def
        toUpperCase_def asciiUpper_def)
  have d: "startsWithLetter (js ''Circle'')" "\<not> startsWithLetter (js ''1Circle'')"
    "js ''Circle'' \<noteq> []" "js ''1Circle'' \<noteq> []"
    by (simp_all add: startsWithLetter_def js_def isLetter_def isLower_def isUpper_def)
  show ?thesis
    using a b c d by (simp add: toComponentName_def safeName_def Let_def)
qed

text \<open>The file names \<^verbatim>\<open>arrow-up.svg\<close> and \<^verbatim>\<open>2-circles.svg\<close>, as instances of C4.\<close>

theorem toComponentName_affix_witness:
  "startsWithLetter (safeName (\<lambda>s. s) (js ''arrow-up.svg''))
   \<and> toComponentName (\<lambda>s. s) (js ''arrow-up.svg'') = js ''ArrowUpIcon''
   \<and> \<not> startsWithLetter (safeName (\<lambda>s. s) (js ''2-circles.svg''))
   \<and> toComponentName (\<lambda>s. s) (js ''2-circles.svg'') = js ''Icon2Circles''
   \<and> rawName (\<lambda>s. s) (js ''2-circles.svg'') \<noteq> []"
proof -
  have defs: "safeName (\<lambda>s. s) (js ''arrow-up.svg'') = js ''ArrowUp''"
    "safeName (\<lambda>s. s) (js ''2-circles.svg'') = js ''2Circles''"
    "rawName (\<lambda>s. s) (js ''2-circles.svg'') = js ''2Circles''"
    by (simp_all add: safeName_def rawName_def parts_def stripSvgExt_def matchesSvgExt_def js_def
        isAlnum_def isLower_def isUpper_def isDigit_def capitalize_def charAt0_def slice1_def
        toUpperCase_def asciiUpper_def)
  have l: "startsWithLetter (js ''ArrowUp'')" "\<not> startsWithLetter (js ''2Circles'')"
    by (simp_all add: startsWithLetter_def js_def isLetter_def isLower_def isUpper_def)
  show ?thesis
    using toComponentName_affix [of "\<lambda>s. s" "js ''arrow-up.svg''"]
      toComponentName_affix [of "\<lambda>s. s" "js ''2-circles.svg''"] defs l
    by (simp add: Icon_def js_def)
qed

text \<open>
  Claim C5. Two file names that differ only in one run of separators (non-empty runs of
  code units that are not ASCII letters or digits) in front of the extension have the
  same derived name.
\<close>

theorem toComponentName_separators:
  assumes "s1 \<noteq> []" "\<forall>c\<in>set s1. \<not> isAlnum c" "s2 \<noteq> []" "\<forall>c\<in>set s2. \<not> isAlnum c"
    and "matchesSvgExt ext"
  shows "toComponentName uc (xs @ s1 @ ys @ ext) = toComponentName uc (xs @ s2 @ ys @ ext)"
proof -
  have "stripSvgExt (xs @ s1 @ ys @ ext) = xs @ s1 @ ys" "stripSvgExt (xs @ s2 @ ys @ ext) = xs @ s2 @ ys"
    using stripSvgExt_append [OF assms(5), of "xs @ s1 @ ys"] stripSvgExt_append [OF assms(5), of "xs @ s2 @ ys"]
    by simp_all
  with assms show ?thesis
    by (simp add: toComponentName_def safeName_def rawName_def parts_append_sep)
qed

text \<open>\<^verbatim>\<open>a-b.svg\<close>, \<^verbatim>\<open>a_b.svg\<close> and \<^verbatim>\<open>a.b.svg\<close> have the same derived name, by C5.\<close>

theorem toComponentName_separators_witness:
  "toComponentName (\<lambda>s. s) (js ''a-b.svg'') = toComponentName (\<lambda>s. s) (js ''a_b.svg'')
   \<and> toComponentName (\<lambda>s. s) (js ''a_b.svg'') = toComponentName (\<lambda>s. s) (js ''a.b.svg'')
   \<and> toComponentName (\<lambda>s. s) (js ''a.b.svg'') = js ''ABIcon''"
proof -
  have sep: "\<forall>c\<in>set (js ''-''). \<not> isAlnum c" "\<forall>c\<in>set (js ''_''). \<not> isAlnum c"
    "\<forall>c\<in>set (js ''.''). \<not> isAlnum c" "js ''-'' \<noteq> []" "js ''_'' \<noteq> []" "js ''.'' \<noteq> []"
    by (simp_all add: js_def isAlnum_def isLower_def isUpper_def isDigit_def)
  have ext: "matchesSvgExt (js ''.svg'')"
    by (simp add: matchesSvgExt_def js_def)
  have cat: "js ''a'' @ js ''-'' @ js ''b'' @ js ''.svg'' = js ''a-b.svg''"
    "js ''a'' @ js ''_'' @ js ''b'' @ js ''.svg'' = js ''a_b.svg''"
    "js ''a'' @ js ''.'' @ js ''b'' @ js ''.svg'' = js ''a.b.svg''"
    by (simp_all add: js_def)
  have v: "toComponentName (\<lambda>s. s) (js ''a.b.svg'') = js ''ABIcon''"
    by (simp add: toComponentName_def safeName_def rawName_def parts_def stripSvgExt_def
        matchesSvgExt_def js_def isAlnum_def isLower_def isUpper_def isDigit_def capitalize_def
        charAt0_def slice1_def toUpperCase_def asciiUpper_def Icon_def startsWithLetter_def
        isLetter_def)
  show ?thesis
    using toComponentName_separators [OF sep(4) sep(1) sep(5) sep(2) ext, of "\<lambda>s. s" "js ''a''" "js ''b''"]
      toComponentName_separators [OF sep(5) sep(2) sep(6) sep(3) ext, of "\<lambda>s. s" "js ''a''" "js ''b''"]
      v
    unfolding cat by simp
qed

section \<open>Properties of the input enumerator\<close>

lemma endsWith_suffix: "endsWith s t \<longleftrightarrow> suffix t s"
proof
  assume "endsWith s t"
  then have "s = take (length s - length t) s @ t"
    by (metis append_take_drop_id endsWith_def)
  then show "suffix t s" by (rule suffixI)
next
  assume "suffix t s"
  then obtain zs where "s = zs @ t" by (auto simp: suffix_def)
  then show "endsWith s t" by (simp add: endsWith_def)
qed

lemma mset_insertBy: "mset (insertBy cmp x ys) = add_mset x (mset ys)"
  by (induction ys) simp_all

lemma mset_sortBy: "mset (sortBy cmp xs) = mset xs"
  by (induction xs) (simp_all add: sortBy_def mset_insertBy)

lemma length_dot_svg: "length (js ''.svg'') = 4"
  by (simp add: js_def)

text \<open>
  Claim C1, as the code has it. The enumerator returns, in the order of the
  listing, exactly the entries that are regular files whose name ends with the lower-case
  suffix \<^verbatim>\<open>.svg\<close>, compared code unit by code unit. A name that ends with another
  capitalization of the extension is left out, as are other extensions and
  subdirectories. The names loaded for the browsing page are a rearrangement of the names
  of these entries.
\<close>

theorem svgFiles_exact:
  "svgFiles entries
     = filter (\<lambda>entry. ftype entry = S_IFREG \<and> suffix (js ''.svg'') (name entry)) entries
   \<and> (\<forall>entry stem ext. name entry = stem @ ext \<and> matchesSvgExt ext \<and> ext \<noteq> js ''.svg''
         \<longrightarrow> entry \<notin> set (svgFiles entries))
   \<and> (svgDir_readdir f = Inr entries \<longrightarrow>
         (\<exists>names. loadIconNames localeCompare f = Inr names
            \<and> mset names = mset (map name (svgFiles entries))))"
proof -
  have a: "svgFiles entries
     = filter (\<lambda>entry. ftype entry = S_IFREG \<and> suffix (js ''.svg'') (name entry)) entries"
    by (simp add: svgFiles_def isFile_def endsWith_suffix)
  have b: "entry \<notin> set (svgFiles entries)"
    if "name entry = stem @ ext" "matchesSvgExt ext" "ext \<noteq> js ''.svg''" for entry stem ext
  proof
    assume "entry \<in> set (svgFiles entries)"
    with a have "suffix (js ''.svg'') (stem @ ext)" using that(1) by simp
    then obtain zs where zs: "stem @ ext = zs @ js ''.svg''" by (auto simp: suffix_def)
    from that(2) have "length ext = length (js ''.svg'')"
      by (simp add: matchesSvgExt_length length_dot_svg)
    with zs have "ext = js ''.svg''" by (metis append_eq_append_conv)
    with that(3) show False by simp
  qed
  have c: "\<exists>names. loadIconNames localeCompare f = Inr names
            \<and> mset names = mset (map name (svgFiles entries))"
    if "svgDir_readdir f = Inr entries"
    using that by (simp add: loadIconNames_def mset_sortBy)
  from a b c show ?thesis by blast
qed

text \<open>
  The example directory gives the one entry \<^verbatim>\<open>icon.svg\<close>, by C1 as amended.
\<close>

theorem svgFiles_exact_witness:
  "svgFiles exampleDir = [\<lparr>name = js ''icon.svg'', ftype = S_IFREG\<rparr>]
   \<and> \<lparr>name = js ''icon.SVG'', ftype = S_IFREG\<rparr> \<notin> set (svgFiles exampleDir)
   \<and> loadIconNames (\<lambda>a b. 0) (exampleFs (Inr S_IFDIR) exampleDir None) = Inr [js ''icon.svg'']"
proof -
  have s: "suffix (js ''.svg'') (js ''icon.svg'')" "\<not> suffix (js ''.svg'') (js ''icon.SVG'')"
    "\<not> suffix (js ''.svg'') (js ''readme.txt'')"
    by (simp_all add: endsWith_suffix [symmetric] endsWith_def js_def)
  have m: "matchesSvgExt (js ''.SVG'')" "js ''.SVG'' \<noteq> js ''.svg''"
    "js ''icon.SVG'' = js ''icon'' @ js ''.SVG''"
    by (simp_all add: matchesSvgExt_def js_def)
  have r: "svgDir_readdir (exampleFs (Inr S_IFDIR) exampleDir None) = Inr exampleDir"
    by (simp add: exampleFs_def)
  from s svgFiles_exact [of exampleDir "exampleFs (Inr S_IFDIR) exampleDir None" "\<lambda>a b. 0"]
  have f: "svgFiles exampleDir = [\<lparr>name = js ''icon.svg'', ftype = S_IFREG\<rparr>]"
    by (simp add: exampleDir_def)
  then have "loadIconNames (\<lambda>a b. 0) (exampleFs (Inr S_IFDIR) exampleDir None) = Inr [js ''icon.svg'']"
    by (simp add: loadIconNames_def r sortBy_def)
  with f show ?thesis by (simp add: js_def)
qed

text \<open>
  Claim C1 as stated fails on the example directory: the regular file \<^verbatim>\<open>icon.SVG\<close>
  matches the extension in the case-insensitive sense, and the enumerator leaves it out.
\<close>

theorem svgFiles_case_insensitive_counterexample:
  "\<lparr>name = js ''icon.SVG'', ftype = S_IFREG\<rparr> \<in> set (spec_svgFiles exampleDir)
   \<and> \<lparr>name = js ''icon.SVG'', ftype = S_IFREG\<rparr> \<notin> set (svgFiles exampleDir)"
  by (simp add: spec_svgFiles_def svgFiles_def exampleDir_def isFile_def endsWith_def
      matchesSvgExt_def js_def)

section \<open>Properties of the directory state guard\<close>

text \<open>
  Claim C8. The guard answers one of the three states. A probe that fails with the code
  \<^verbatim>\<open>ENOENT\<close> gives \<^verbatim>\<open>missing\<close> and no error, a directory gives \<^verbatim>\<open>directory\<close>, a regular
  file gives \<^verbatim>\<open>file\<close>, and every other failure of the probe is passed on as it is.
\<close>

theorem detectSvgDir_states:
  "(svgDir_stat f = Inl e \<and> code e = Some ENOENT \<longrightarrow> detectSvgDir f = Inr Missing)
   \<and> (svgDir_stat f = Inr S_IFDIR \<longrightarrow> detectSvgDir f = Inr Directory)
   \<and> (svgDir_stat f = Inr S_IFREG \<longrightarrow> detectSvgDir f = Inr File)
   \<and> (svgDir_stat f = Inl e \<and> code e \<noteq> Some ENOENT \<longrightarrow> detectSvgDir f = Inl e)
   \<and> (\<forall>s. detectSvgDir f = Inr s \<longrightarrow> s = Missing \<or> s = Directory \<or> s = File)"
proof -
  have "s = Missing \<or> s = Directory \<or> s = File" for s
    by (cases s) simp_all
  then show ?thesis
    by (simp add: detectSvgDir_def isDirectory_def isFile_def)
qed

text \<open>
  The four cases of C8 on example file systems; a plain error whose message reads
  \<^verbatim>\<open>ENOENT\<close> has no code and is passed on.
\<close>

theorem detectSvgDir_states_witness:
  "detectSvgDir (exampleFs (Inl (ErrnoException ENOENT)) [] None) = Inr Missing
   \<and> detectSvgDir (exampleFs (Inr S_IFDIR) [] None) = Inr Directory
   \<and> detectSvgDir (exampleFs (Inr S_IFREG) [] None) = Inr File
   \<and> detectSvgDir (exampleFs (Inl (ErrnoException (js ''EACCES''))) [] None)
       = Inl (ErrnoException (js ''EACCES''))
   \<and> detectSvgDir (exampleFs (Inl (Error (js ''ENOENT''))) [] None) = Inl (Error (js ''ENOENT''))"
proof -
  have c: "code (ErrnoException (js ''EACCES'')) \<noteq> Some ENOENT" "code (Error (js ''ENOENT'')) \<noteq> Some ENOENT"
    "code (ErrnoException ENOENT) = Some ENOENT"
    by (simp_all add: ENOENT_def js_def)
  show ?thesis
    using c
      detectSvgDir_states [of "exampleFs (Inl (ErrnoException ENOENT)) [] None" "ErrnoException ENOENT"]
      detectSvgDir_states [of "exampleFs (Inr S_IFDIR) [] None" "ErrnoException ENOENT"]
      detectSvgDir_states [of "exampleFs (Inr S_IFREG) [] None" "ErrnoException ENOENT"]
      detectSvgDir_states [of "exampleFs (Inl (ErrnoException (js ''EACCES''))) [] None" "ErrnoException (js ''EACCES'')"]
      detectSvgDir_states [of "exampleFs (Inl (Error (js ''ENOENT''))) [] None" "Error (js ''ENOENT'')"]
    by (simp add: exampleFs_def)
qed

lemma execa_trace: "trace (snd (execa run cmd args w)) = trace w @ [Execa cmd args]"
  by (simp add: execa_def split: prod.splits)

text \<open>
  Claim C9. A path that exists and is neither a directory nor a regular file is
  classified as \<^verbatim>\<open>missing\<close>, and the generator is then started as for an absent path.
\<close>

theorem detectSvgDir_special_file:
  "svgDir_stat (fs w) = Inr t \<and> t \<noteq> S_IFDIR \<and> t \<noteq> S_IFREG \<longrightarrow>
     detectSvgDir (fs w) = Inr Missing
     \<and> ensureSvgIcons generator w = execa generator (js ''yarn'') generatorArgs w
     \<and> trace (snd (ensureSvgIcons generator w)) = trace w @ [Execa (js ''yarn'') generatorArgs]"
  by (simp add: ensureSvgIcons_def detectSvgDir_def isDirectory_def isFile_def execa_trace)

text \<open>
  A FIFO at the source path, as an instance of C9.
\<close>

theorem detectSvgDir_special_file_witness:
  "detectSvgDir (exampleFs (Inr S_IFIFO) [] None) = Inr Missing
   \<and> trace (snd (ensureSvgIcons (Pair None) \<lparr>fs = exampleFs (Inr S_IFIFO) [] None, trace = []\<rparr>))
       = [Execa (js ''yarn'') generatorArgs]"
  using detectSvgDir_special_file [of "\<lparr>fs = exampleFs (Inr S_IFIFO) [] None, trace = []\<rparr>" S_IFIFO "Pair None"]
  by (simp add: exampleFs_def execa_def)

section \<open>Properties of the generation step\<close>

text \<open>
  Claim C7, as the code has it. The generator is started if and only if the guard
  answers \<^verbatim>\<open>missing\<close>, that is, when the probe reports not-found or the path exists as
  something that is neither a directory nor a regular file. In every other case nothing
  is changed. On a directory the step is skipped. On a regular file the step, and with it
  the whole run, fails with an error whose message starts with the path, and the world is
  as it was.
\<close>

theorem ensureSvgIcons_cases:
  "(trace (snd (ensureSvgIcons generator w)) = trace w @ [Execa (js ''yarn'') generatorArgs]
      \<longleftrightarrow> detectSvgDir (fs w) = Inr Missing)
   \<and> (detectSvgDir (fs w) = Inr Missing
      \<longleftrightarrow> (\<exists>e. svgDir_stat (fs w) = Inl e \<and> code e = Some ENOENT)
          \<or> (\<exists>t. svgDir_stat (fs w) = Inr t \<and> t \<noteq> S_IFDIR \<and> t \<noteq> S_IFREG))
   \<and> (detectSvgDir (fs w) = Inr Missing \<longrightarrow>
         ensureSvgIcons generator w = execa generator (js ''yarn'') generatorArgs w
         \<and> trace (snd (ensureSvgIcons generator w)) = trace w @ [Execa (js ''yarn'') generatorArgs])
   \<and> (detectSvgDir (fs w) \<noteq> Inr Missing \<longrightarrow> snd (ensureSvgIcons generator w) = w)
   \<and> (svgDir_stat (fs w) = Inr S_IFDIR \<longrightarrow> ensureSvgIcons generator w = (None, w))
   \<and> (svgDir_stat (fs w) = Inr S_IFREG \<longrightarrow>
         ensureSvgIcons generator w = (Some notADirectory, w)
         \<and> main generator transform uc prettier w = (Some notADirectory, w)
         \<and> (\<exists>rest. notADirectory = Error (relative_svgDir @ rest)))"
proof -
  have a: "detectSvgDir (fs w) = Inr Missing
      \<longleftrightarrow> (\<exists>e. svgDir_stat (fs w) = Inl e \<and> code e = Some ENOENT)
          \<or> (\<exists>t. svgDir_stat (fs w) = Inr t \<and> t \<noteq> S_IFDIR \<and> t \<noteq> S_IFREG)"
    by (cases "svgDir_stat (fs w)") (auto simp: detectSvgDir_def isDirectory_def isFile_def)
  have b: "ensureSvgIcons generator w = execa generator (js ''yarn'') generatorArgs w"
    if "detectSvgDir (fs w) = Inr Missing"
    using that by (simp add: ensureSvgIcons_def)
  have c: "snd (ensureSvgIcons generator w) = w" if "detectSvgDir (fs w) \<noteq> Inr Missing"
  proof (cases "detectSvgDir (fs w)")
    case (Inl e)
    then show ?thesis by (simp add: ensureSvgIcons_def)
  next
    case (Inr s)
    with that show ?thesis by (cases s) (simp_all add: ensureSvgIcons_def)
  qed
  have d: "ensureSvgIcons generator w = (None, w)" if "svgDir_stat (fs w) = Inr S_IFDIR"
    using that by (simp add: ensureSvgIcons_def detectSvgDir_def isDirectory_def)
  have e: "ensureSvgIcons generator w = (Some notADirectory, w)" if "svgDir_stat (fs w) = Inr S_IFREG"
    using that by (simp add: ensureSvgIcons_def detectSvgDir_def isDirectory_def isFile_def)
  have f: "\<exists>rest. notADirectory = Error (relative_svgDir @ rest)"
    by (simp add: notADirectory_def)
  have g: "trace (snd (ensureSvgIcons generator w)) = trace w @ [Execa (js ''yarn'') generatorArgs]
      \<longleftrightarrow> detectSvgDir (fs w) = Inr Missing"
    using b c by (cases "detectSvgDir (fs w) = Inr Missing") (simp_all add: execa_trace)
  from a b c d e f g show ?thesis
    by (simp add: main_def execa_trace)
qed

text \<open>
  An absent path, a directory and a regular file, as instances of C7 as amended.
\<close>

theorem ensureSvgIcons_cases_witness:
  "ensureSvgIcons (Pair None) \<lparr>fs = exampleFs (Inl (ErrnoException ENOENT)) [] None, trace = []\<rparr>
     = (None, \<lparr>fs = exampleFs (Inl (ErrnoException ENOENT)) [] None,
               trace = [Execa (js ''yarn'') generatorArgs]\<rparr>)
   \<and> ensureSvgIcons (Pair None) \<lparr>fs = exampleFs (Inr S_IFDIR) [] None, trace = []\<rparr>
     = (None, \<lparr>fs = exampleFs (Inr S_IFDIR) [] None, trace = []\<rparr>)
   \<and> main (Pair None) exampleTransform (\<lambda>s. s) (Pair None)
        \<lparr>fs = exampleFs (Inr S_IFREG) [] None, trace = []\<rparr>
     = (Some notADirectory, \<lparr>fs = exampleFs (Inr S_IFREG) [] None, trace = []\<rparr>)"
proof -
  let ?w = "\<lambda>st. \<lparr>fs = exampleFs st [] None, trace = []\<rparr>"
  have m: "detectSvgDir (fs (?w (Inl (ErrnoException ENOENT)))) = Inr Missing"
    by (simp add: detectSvgDir_def exampleFs_def)
  have s: "svgDir_stat (fs (?w (Inr S_IFDIR))) = Inr S_IFDIR" "svgDir_stat (fs (?w (Inr S_IFREG))) = Inr S_IFREG"
    by (simp_all add: exampleFs_def)
  show ?thesis
    using m s
      ensureSvgIcons_cases [of "Pair None" "?w (Inl (ErrnoException ENOENT))" exampleTransform "\<lambda>s. s" "Pair None"]
      ensureSvgIcons_cases [of "Pair None" "?w (Inr S_IFDIR)" exampleTransform "\<lambda>s. s" "Pair None"]
      ensureSvgIcons_cases [of "Pair None" "?w (Inr S_IFREG)" exampleTransform "\<lambda>s. s" "Pair None"]
    by (simp add: execa_def)
qed

text \<open>
  Claim C7 as stated fails when the path exists as a FIFO: the generator is started
  although the path is not absent.
\<close>

theorem generator_on_existing_path_counterexample:
  "svgDir_stat (fs \<lparr>fs = exampleFs (Inr S_IFIFO) [] None, trace = []\<rparr>) = Inr S_IFIFO
   \<and> trace (snd (ensureSvgIcons (Pair None) \<lparr>fs = exampleFs (Inr S_IFIFO) [] None, trace = []\<rparr>))
       = [Execa (js ''yarn'') generatorArgs]"
  by (simp add: ensureSvgIcons_def detectSvgDir_def isDirectory_def isFile_def execa_def
      exampleFs_def)

section \<open>Properties of the transform pipeline\<close>

lemma rm_result:
  "rm w = (r, w') \<Longrightarrow>
     trace w' = trace w @ [Rm] \<and> svgDir_readFile (fs w') = svgDir_readFile (fs w)
     \<and> (r = None \<longrightarrow> componentsDir (fs w') = None)
     \<and> (fault (fs w) Rm = None \<longrightarrow> r = None)"
  by (auto simp: rm_def Let_def split: option.splits)

lemma mkdir_result:
  "mkdir w = (r, w') \<Longrightarrow>
     trace w' = trace w @ [Mkdir] \<and> svgDir_readFile (fs w') = svgDir_readFile (fs w)
     \<and> (r = None \<and> componentsDir (fs w) = None \<longrightarrow> componentsDir (fs w') = Some (DirNode []))"
  by (auto simp: mkdir_def Let_def split: option.splits node.splits)

lemma set_update_subset: "x \<in> set (AList.update k v es) \<Longrightarrow> x = (k, v) \<or> x \<in> set es"
  by (induction es) (auto split: if_splits)

lemma writeFile_result:
  "writeFile n d w = (r, w') \<Longrightarrow>
     trace w' = trace w @ [WriteFile n d] \<and> svgDir_readFile (fs w') = svgDir_readFile (fs w)
     \<and> (r = None \<longrightarrow> (\<exists>es. componentsDir (fs w) = Some (DirNode es)
            \<and> componentsDir (fs w') = Some (DirNode (AList.update n (FileNode d) es))))"
  by (auto simp: writeFile_def Let_def split: option.splits node.splits)

lemma transformAll_result:
  "transformAll transform uc svgs w = (r, w') \<Longrightarrow>
     svgDir_readFile (fs w') = svgDir_readFile (fs w)
     \<and> (\<exists>writes. trace w' = trace w @ writes \<and> list_all isWrite writes)
     \<and> (r = None \<longrightarrow> (\<forall>es. componentsDir (fs w) = Some (DirNode es) \<longrightarrow>
           (\<exists>es'. componentsDir (fs w') = Some (DirNode es')
              \<and> (\<forall>kv\<in>set es'. kv \<in> set es
                    \<or> (\<exists>svg\<in>set svgs. component transform uc (fs w) svg = Some kv)))))"
proof (induction svgs arbitrary: w)
  case Nil
  then show ?case by auto
next
  case (Cons svg rest)
  show ?case
  proof (cases "svgDir_readFile (fs w) (name svg)")
    case (Inl e)
    with Cons.prems show ?thesis by auto
  next
    case (Inr svgContent)
    let ?n = "toComponentName uc (name svg)"
    show ?thesis
    proof (cases "transform svgContent ?n")
      case (Inl e)
      with Inr Cons.prems show ?thesis by (auto simp: Let_def)
    next
      case tr: (Inr componentSource)
      obtain r1 w1 where wf: "writeFile (?n @ js ''.tsx'') componentSource w = (r1, w1)"
        by (cases "writeFile (?n @ js ''.tsx'') componentSource w")
      note w1 = writeFile_result [OF wf]
      have comp: "component transform uc (fs w) svg = Some (?n @ js ''.tsx'', FileNode componentSource)"
        using Inr tr by (simp add: component_def)
      show ?thesis
      proof (cases r1)
        case (Some e)
        with Inr tr wf Cons.prems have "r = Some e" "w' = w1" by (simp_all add: Let_def)
        with w1 show ?thesis by (auto simp: isWrite_def)
      next
        case None
        with Inr tr wf Cons.prems have rest: "transformAll transform uc rest w1 = (r, w')"
          by (simp add: Let_def)
        note ih = Cons.IH [OF rest]
        from w1 None obtain es0 where es0: "componentsDir (fs w) = Some (DirNode es0)"
          "componentsDir (fs w1) = Some (DirNode (AList.update (?n @ js ''.tsx'') (FileNode componentSource) es0))"
          by auto
        have eqc: "component transform uc (fs w1) s = component transform uc (fs w) s" for s
          using w1 by (simp add: component_def)
        have a: "svgDir_readFile (fs w') = svgDir_readFile (fs w)"
          using ih w1 by simp
        from ih obtain writes where "trace w' = trace w1 @ writes" "list_all isWrite writes"
          by auto
        with w1 have b: "\<exists>writes. trace w' = trace w @ writes \<and> list_all isWrite writes"
          by (intro exI [of _ "WriteFile (?n @ js ''.tsx'') componentSource # writes"])
             (simp add: isWrite_def)
        have c: "\<exists>es'. componentsDir (fs w') = Some (DirNode es')
              \<and> (\<forall>kv\<in>set es'. kv \<in> set es
                    \<or> (\<exists>s\<in>set (svg # rest). component transform uc (fs w) s = Some kv))"
          if "r = None" "componentsDir (fs w) = Some (DirNode es)" for es
        proof -
          from that es0 have e: "es0 = es" by simp
          from ih that(1) es0(2) obtain es' where es': "componentsDir (fs w') = Some (DirNode es')"
            "\<forall>kv\<in>set es'. kv \<in> set (AList.update (?n @ js ''.tsx'') (FileNode componentSource) es0)
                \<or> (\<exists>s\<in>set rest. component transform uc (fs w1) s = Some kv)"
            by blast
          have "kv \<in> set es \<or> (\<exists>s\<in>set (svg # rest). component transform uc (fs w) s = Some kv)"
            if "kv \<in> set es'" for kv
            using es'(2) that set_update_subset [of kv "?n @ js ''.tsx''" "FileNode componentSource" es0]
              comp e eqc by auto
          with es'(1) show ?thesis by blast
        qed
        from a b c show ?thesis by blast
      qed
    qed
  qed
qed

text \<open>
  Claim C6. On a source directory whose listing holds no matching file the pipeline
  returns without an error and leaves the world, the destination included, as it was.
  With at least one matching file the first change is the recursive removal of the
  destination, which is no error when nothing is there, the second is its creation, and
  only file writes follow. After a run that ends without error the destination is a
  directory in which every entry was written by this run from a matching source file, so
  nothing of an earlier run is left.
\<close>

theorem buildReactComponents_destination:
  assumes "detectSvgDir (fs w) = Inr Directory" and "svgDir_readdir (fs w) = Inr entries"
    and "buildReactComponents transform uc w = (r, w')"
  shows "(svgFiles entries = [] \<longrightarrow> r = None \<and> w' = w)
    \<and> (svgFiles entries \<noteq> [] \<longrightarrow>
          (trace w' = trace w @ [Rm]
             \<or> (\<exists>writes. trace w' = trace w @ Rm # Mkdir # writes \<and> list_all isWrite writes))
          \<and> (fault (fs w) Rm = None \<longrightarrow> fst (rm w) = None)
          \<and> (r = None \<longrightarrow>
                (\<exists>es. componentsDir (fs w') = Some (DirNode es)
                   \<and> (\<forall>kv\<in>set es. \<exists>svg\<in>set (svgFiles entries).
                          component transform uc (fs w) svg = Some kv))))"
proof (cases "svgFiles entries = []")
  case True
  with assms show ?thesis by (simp add: buildReactComponents_def)
next
  case False
  obtain r1 w1 where rm: "rm w = (r1, w1)" by (cases "rm w")
  note w1 = rm_result [OF rm]
  have flt: "fault (fs w) Rm = None \<longrightarrow> fst (rm w) = None"
    using w1 rm by simp
  show ?thesis
  proof (cases r1)
    case (Some e)
    with assms False rm have "r = Some e" "w' = w1" by (simp_all add: buildReactComponents_def)
    with w1 False flt show ?thesis by simp
  next
    case None
    obtain r2 w2 where mk: "mkdir w1 = (r2, w2)" by (cases "mkdir w1")
    note w2 = mkdir_result [OF mk]
    show ?thesis
    proof (cases r2)
      case (Some e)
      with None assms False rm mk have "r = Some e" "w' = w2" by (simp_all add: buildReactComponents_def)
      with w1 w2 False flt show ?thesis by simp
    next
      case n2: None
      with None assms False rm mk have ta: "transformAll transform uc (svgFiles entries) w2 = (r, w')"
        by (simp add: buildReactComponents_def)
      note t = transformAll_result [OF ta]
      from t obtain writes where wr: "trace w' = trace w2 @ writes" "list_all isWrite writes" by auto
      with w1 w2 have tr: "\<exists>writes. trace w' = trace w @ Rm # Mkdir # writes \<and> list_all isWrite writes"
        by simp
      have eqc: "component transform uc (fs w2) s = component transform uc (fs w) s" for s
        using w1 w2 by (simp add: component_def)
      from w1 w2 None n2 have d: "componentsDir (fs w2) = Some (DirNode [])" by simp
      have fin: "\<exists>es. componentsDir (fs w') = Some (DirNode es)
                   \<and> (\<forall>kv\<in>set es. \<exists>svg\<in>set (svgFiles entries).
                          component transform uc (fs w) svg = Some kv)" if "r = None"
        using t that d eqc by fastforce
      from False tr flt fin show ?thesis by blast
    qed
  qed
qed

text \<open>
  A listing without icons leaves the stale destination as it is; with two icons the
  destination holds the two new components only. Both are instances of C6.
\<close>

theorem buildReactComponents_destination_witness:
  "buildReactComponents exampleTransform (\<lambda>s. s)
       (exampleWorld [\<lparr>name = js ''readme.txt'', ftype = S_IFREG\<rparr>])
     = (None, exampleWorld [\<lparr>name = js ''readme.txt'', ftype = S_IFREG\<rparr>])
   \<and> fst (buildReactComponents exampleTransform (\<lambda>s. s) (exampleWorld exampleIcons)) = None
   \<and> componentsDir (fs (snd (buildReactComponents exampleTransform (\<lambda>s. s) (exampleWorld exampleIcons))))
     = Some (DirNode [(js ''ArrowUpIcon.tsx'', FileNode (js ''ArrowUpIcon:arrow-up.svg'')),
                      (js ''Icon2Circles.tsx'', FileNode (js ''Icon2Circles:2-circles.svg''))])
   \<and> trace (snd (buildReactComponents exampleTransform (\<lambda>s. s) (exampleWorld exampleIcons)))
     = [Rm, Mkdir, WriteFile (js ''ArrowUpIcon.tsx'') (js ''ArrowUpIcon:arrow-up.svg''),
        WriteFile (js ''Icon2Circles.tsx'') (js ''Icon2Circles:2-circles.svg'')]"
proof -
  let ?readme = "[\<lparr>name = js ''readme.txt'', ftype = S_IFREG\<rparr>]"
  have d: "detectSvgDir (fs (exampleWorld es)) = Inr Directory"
    "svgDir_readdir (fs (exampleWorld es)) = Inr es" for es
    by (simp_all add: exampleWorld_def exampleFs_def detectSvgDir_def isDirectory_def)
  have f: "svgFiles ?readme = []"
    "svgFiles exampleIcons = [\<lparr>name = js ''arrow-up.svg'', ftype = S_IFREG\<rparr>,
                   \<lparr>name = js ''2-circles.svg'', ftype = S_IFREG\<rparr>]"
    by (simp_all add: svgFiles_def exampleIcons_def isFile_def endsWith_def js_def)
  have n: "toComponentName (\<lambda>s. s) (js ''arrow-up.svg'') = js ''ArrowUpIcon''"
    "toComponentName (\<lambda>s. s) (js ''2-circles.svg'') = js ''Icon2Circles''"
    by (simp_all add: toComponentName_def safeName_def rawName_def parts_def stripSvgExt_def
        matchesSvgExt_def js_def isAlnum_def isLower_def isUpper_def isDigit_def capitalize_def
        charAt0_def slice1_def toUpperCase_def asciiUpper_def Icon_def startsWithLetter_def
        isLetter_def)
  have ne: "js ''Icon2Circles.tsx'' \<noteq> js ''ArrowUpIcon.tsx''"
    "js ''ArrowUpIcon.tsx'' \<noteq> js ''Icon2Circles.tsx''"
    "js ''Icon2Circles'' \<noteq> js ''ArrowUpIcon''"
    "js ''ArrowUpIcon'' @ js ''.tsx'' = js ''ArrowUpIcon.tsx''"
    "js ''Icon2Circles'' @ js ''.tsx'' = js ''Icon2Circles.tsx''"
    "js ''ArrowUpIcon'' @ js '':'' @ js ''arrow-up.svg'' = js ''ArrowUpIcon:arrow-up.svg''"
    "js ''Icon2Circles'' @ js '':'' @ js ''2-circles.svg'' = js ''Icon2Circles:2-circles.svg''"
    by (simp_all add: js_def)
  have run: "buildReactComponents exampleTransform (\<lambda>s. s) (exampleWorld exampleIcons)
     = (None, \<lparr>fs = exampleFs (Inr S_IFDIR) exampleIcons
           (Some (DirNode [(js ''ArrowUpIcon.tsx'', FileNode (js ''ArrowUpIcon:arrow-up.svg'')),
                      (js ''Icon2Circles.tsx'', FileNode (js ''Icon2Circles:2-circles.svg''))])),
         trace = [Rm, Mkdir, WriteFile (js ''ArrowUpIcon.tsx'') (js ''ArrowUpIcon:arrow-up.svg''),
        WriteFile (js ''Icon2Circles.tsx'') (js ''Icon2Circles:2-circles.svg'')]\<rparr>)"
    unfolding buildReactComponents_def d f
    by (simp add: f rm_def mkdir_def writeFile_def Let_def exampleWorld_def
        exampleFs_def exampleTransform_def n ne)
  obtain r w' where rw: "buildReactComponents exampleTransform (\<lambda>s. s) (exampleWorld ?readme) = (r, w')"
    by (cases "buildReactComponents exampleTransform (\<lambda>s. s) (exampleWorld ?readme)")
  from buildReactComponents_destination [OF d rw] f(1)
  have "r = None" "w' = exampleWorld ?readme" by simp_all
  with rw run show ?thesis by (simp add: exampleFs_def)
qed

section \<open>Properties of the embedded icon list\<close>

lemma replaceLt_no_lt: "0x3C \<notin> set (replaceLt s)"
  by (induction s) (simp_all add: replaceLt_def u003c_def)

text \<open>
  Claim C10. For every list of icon names the data embedded in the page holds no
  \<^verbatim>\<open><\<close>, each one of the JSON text having been replaced by the escape, so the closing
  tag of a script block cannot occur in it.
\<close>

theorem safeJson_no_lt:
  "0x3C \<notin> set (safeJson iconNames)
   \<and> \<not> (\<exists>p q. safeJson iconNames = p @ js ''</script'' @ q)"
proof -
  have a: "0x3C \<notin> set (safeJson iconNames)"
    by (simp add: safeJson_def replaceLt_no_lt)
  have "0x3C \<in> set (p @ js ''</script'' @ q)" for p q
    by (simp add: js_def)
  with a show ?thesis by metis
qed

text \<open>
  An icon named after the closing tag, as an instance of C10.
\<close>

theorem safeJson_no_lt_witness:
  "safeJson [js ''</script>.svg''] = [0x5B, 0x22] @ u003c @ js ''/script>.svg'' @ [0x22, 0x5D]
   \<and> 0x3C \<notin> set (safeJson [js ''</script>.svg''])"
proof -
  have "safeJson [js ''</script>.svg''] = [0x5B, 0x22] @ u003c @ js ''/script>.svg'' @ [0x22, 0x5D]"
    by (simp add: safeJson_def replaceLt_def JSON_stringify_def quoteJSONString_def quoteUnit_def
        isLeadSurrogate_def isTrailSurrogate_def js_def u003c_def)
  with safeJson_no_lt [of "[js ''</script>.svg'']"] show ?thesis by simp
qed

end
